theory Spec2Isabelle
  imports Complex_Main "HOL-Library.AList"
begin

section \<open>JavaScript numbers\<close>

text \<open>
  A TypeScript \<open>number\<close> is modelled as a real number extended by the three special
  values of IEEE arithmetic. Finite results are exact: rounding to double precision is
  not modelled, and neither is the sign of zero (a zero divisor is taken as \<open>+0\<close>,
  which is the only zero the divisions of this program can meet). What is modelled
  exactly is where \<open>NaN\<close> and the infinities arise and how they propagate, since
  JavaScript arithmetic never throws.
\<close>

datatype jsnum = Num real | PInf | NInf | NaN

fun jsneg :: "jsnum \<Rightarrow> jsnum" where
  "jsneg (Num a) = Num (- a)"
| "jsneg PInf = NInf"
| "jsneg NInf = PInf"
| "jsneg NaN = NaN"

fun jsadd :: "jsnum \<Rightarrow> jsnum \<Rightarrow> jsnum" where
  "jsadd (Num a) (Num b) = Num (a + b)"
| "jsadd (Num a) PInf = PInf"
| "jsadd (Num a) NInf = NInf"
| "jsadd PInf (Num b) = PInf"
| "jsadd PInf PInf = PInf"
| "jsadd PInf NInf = NaN"
| "jsadd NInf (Num b) = NInf"
| "jsadd NInf PInf = NaN"
| "jsadd NInf NInf = NInf"
| "jsadd NaN b = NaN"
| "jsadd a NaN = NaN"

definition jssub :: "jsnum \<Rightarrow> jsnum \<Rightarrow> jsnum" where
  "jssub a b = jsadd a (jsneg b)"

text \<open>The infinity with the sign of a non-zero real.\<close>

definition inf_signed :: "real \<Rightarrow> jsnum" where
  "inf_signed a = (if a = 0 then NaN else if 0 < a then PInf else NInf)"

fun jsmul :: "jsnum \<Rightarrow> jsnum \<Rightarrow> jsnum" where
  "jsmul (Num a) (Num b) = Num (a * b)"
| "jsmul (Num a) PInf = inf_signed a"
| "jsmul (Num a) NInf = inf_signed (- a)"
| "jsmul PInf (Num b) = inf_signed b"
| "jsmul PInf PInf = PInf"
| "jsmul PInf NInf = NInf"
| "jsmul NInf (Num b) = inf_signed (- b)"
| "jsmul NInf PInf = NInf"
| "jsmul NInf NInf = PInf"
| "jsmul NaN b = NaN"
| "jsmul a NaN = NaN"

fun jsdiv :: "jsnum \<Rightarrow> jsnum \<Rightarrow> jsnum" where
  "jsdiv (Num a) (Num b) = (if b = 0 then inf_signed a else Num (a / b))"
| "jsdiv (Num a) PInf = Num 0"
| "jsdiv (Num a) NInf = Num 0"
| "jsdiv PInf (Num b) = (if 0 \<le> b then PInf else NInf)"
| "jsdiv PInf PInf = NaN"
| "jsdiv PInf NInf = NaN"
| "jsdiv NInf (Num b) = (if 0 \<le> b then NInf else PInf)"
| "jsdiv NInf PInf = NaN"
| "jsdiv NInf NInf = NaN"
| "jsdiv NaN b = NaN"
| "jsdiv a NaN = NaN"

text \<open>Comparisons: every comparison with \<open>NaN\<close> is false.\<close>

fun jslt :: "jsnum \<Rightarrow> jsnum \<Rightarrow> bool" where
  "jslt (Num a) (Num b) = (a < b)"
| "jslt (Num a) PInf = True"
| "jslt NInf (Num b) = True"
| "jslt NInf PInf = True"
| "jslt a b = False"

definition jsgt :: "jsnum \<Rightarrow> jsnum \<Rightarrow> bool" where
  "jsgt a b = jslt b a"

definition jsle :: "jsnum \<Rightarrow> jsnum \<Rightarrow> bool" where
  "jsle a b = (a \<noteq> NaN \<and> b \<noteq> NaN \<and> (a = b \<or> jslt a b))"

text \<open>\<open>Math.max\<close> and \<open>Math.min\<close> of two arguments: \<open>NaN\<close> if either is.\<close>

definition Math_max :: "jsnum \<Rightarrow> jsnum \<Rightarrow> jsnum" where
  "Math_max a b = (if a = NaN \<or> b = NaN then NaN else if jslt a b then b else a)"

definition Math_min :: "jsnum \<Rightarrow> jsnum \<Rightarrow> jsnum" where
  "Math_min a b = (if a = NaN \<or> b = NaN then NaN else if jslt b a then b else a)"

definition Math_PI :: jsnum where
  "Math_PI = Num pi"

text \<open>A number that is neither \<open>NaN\<close> nor infinite.\<close>

fun isFinite :: "jsnum \<Rightarrow> bool" where
  "isFinite (Num a) = True"
| "isFinite a = False"

section \<open>Country coordinates (utils/country-coordinates.ts)\<close>

record CountryCoordinate =
  lat :: jsnum
  lng :: jsnum
  name :: string

text \<open>
  The lookup table is an object literal keyed by two-letter codes; it is kept as an
  association list in source order (its keys are pairwise different).
\<close>

definition COUNTRY_COORDINATES :: "(string \<times> CountryCoordinate) list" where
  "COUNTRY_COORDINATES = [
    (''US'', \<lparr>lat = Num 37.0902, lng = Num (- 95.7129), name = ''United States''\<rparr>),
    (''CA'', \<lparr>lat = Num 56.1304, lng = Num (- 106.3468), name = ''Canada''\<rparr>),
    (''MX'', \<lparr>lat = Num 23.6345, lng = Num (- 102.5528), name = ''Mexico''\<rparr>),
    (''GB'', \<lparr>lat = Num 55.3781, lng = Num (- 3.436), name = ''United Kingdom''\<rparr>),
    (''FR'', \<lparr>lat = Num 46.2276, lng = Num 2.2137, name = ''France''\<rparr>),
    (''DE'', \<lparr>lat = Num 51.1657, lng = Num 10.4515, name = ''Germany''\<rparr>),
    (''IT'', \<lparr>lat = Num 41.8719, lng = Num 12.5674, name = ''Italy''\<rparr>),
    (''ES'', \<lparr>lat = Num 40.4637, lng = Num (- 3.7492), name = ''Spain''\<rparr>),
    (''PL'', \<lparr>lat = Num 51.9194, lng = Num 19.1451, name = ''Poland''\<rparr>),
    (''RO'', \<lparr>lat = Num 45.9432, lng = Num 24.9668, name = ''Romania''\<rparr>),
    (''NL'', \<lparr>lat = Num 52.1326, lng = Num 5.2913, name = ''Netherlands''\<rparr>),
    (''BE'', \<lparr>lat = Num 50.5039, lng = Num 4.4699, name = ''Belgium''\<rparr>),
    (''GR'', \<lparr>lat = Num 39.0742, lng = Num 21.8243, name = ''Greece''\<rparr>),
    (''PT'', \<lparr>lat = Num 39.3999, lng = Num (- 8.2245), name = ''Portugal''\<rparr>),
    (''CZ'', \<lparr>lat = Num 49.8175, lng = Num 15.473, name = ''Czech Republic''\<rparr>),
    (''HU'', \<lparr>lat = Num 47.1625, lng = Num 19.5033, name = ''Hungary''\<rparr>),
    (''SE'', \<lparr>lat = Num 60.1282, lng = Num 18.6435, name = ''Sweden''\<rparr>),
    (''AT'', \<lparr>lat = Num 47.5162, lng = Num 14.5501, name = ''Austria''\<rparr>),
    (''BG'', \<lparr>lat = Num 42.7339, lng = Num 25.4858, name = ''Bulgaria''\<rparr>),
    (''DK'', \<lparr>lat = Num 56.2639, lng = Num 9.5018, name = ''Denmark''\<rparr>),
    (''FI'', \<lparr>lat = Num 61.9241, lng = Num 25.7482, name = ''Finland''\<rparr>),
    (''SK'', \<lparr>lat = Num 48.669, lng = Num 19.699, name = ''Slovakia''\<rparr>),
    (''NO'', \<lparr>lat = Num 60.472, lng = Num 8.4689, name = ''Norway''\<rparr>),
    (''IE'', \<lparr>lat = Num 53.4129, lng = Num (- 8.2439), name = ''Ireland''\<rparr>),
    (''HR'', \<lparr>lat = Num 45.1, lng = Num 15.2, name = ''Croatia''\<rparr>),
    (''LT'', \<lparr>lat = Num 55.1694, lng = Num 23.8813, name = ''Lithuania''\<rparr>),
    (''SI'', \<lparr>lat = Num 46.1512, lng = Num 14.9955, name = ''Slovenia''\<rparr>),
    (''LV'', \<lparr>lat = Num 56.8796, lng = Num 24.6032, name = ''Latvia''\<rparr>),
    (''EE'', \<lparr>lat = Num 58.5953, lng = Num 25.0136, name = ''Estonia''\<rparr>),
    (''CH'', \<lparr>lat = Num 46.8182, lng = Num 8.2275, name = ''Switzerland''\<rparr>),
    (''RS'', \<lparr>lat = Num 44.0165, lng = Num 21.0059, name = ''Serbia''\<rparr>),
    (''UA'', \<lparr>lat = Num 48.3794, lng = Num 31.1656, name = ''Ukraine''\<rparr>),
    (''BY'', \<lparr>lat = Num 53.7098, lng = Num 27.9534, name = ''Belarus''\<rparr>),
    (''RU'', \<lparr>lat = Num 61.524, lng = Num 105.3188, name = ''Russia''\<rparr>),
    (''CN'', \<lparr>lat = Num 35.8617, lng = Num 104.1954, name = ''China''\<rparr>),
    (''IN'', \<lparr>lat = Num 20.5937, lng = Num 78.9629, name = ''India''\<rparr>),
    (''JP'', \<lparr>lat = Num 36.2048, lng = Num 138.2529, name = ''Japan''\<rparr>),
    (''KR'', \<lparr>lat = Num 35.9078, lng = Num 127.7669, name = ''South Korea''\<rparr>),
    (''ID'', \<lparr>lat = Num (- 0.7893), lng = Num 113.9213, name = ''Indonesia''\<rparr>),
    (''TR'', \<lparr>lat = Num 38.9637, lng = Num 35.2433, name = ''Turkey''\<rparr>),
    (''TH'', \<lparr>lat = Num 15.87, lng = Num 100.9925, name = ''Thailand''\<rparr>),
    (''SA'', \<lparr>lat = Num 23.8859, lng = Num 45.0792, name = ''Saudi Arabia''\<rparr>),
    (''PK'', \<lparr>lat = Num 30.3753, lng = Num 69.3451, name = ''Pakistan''\<rparr>),
    (''BD'', \<lparr>lat = Num 23.685, lng = Num 90.3563, name = ''Bangladesh''\<rparr>),
    (''VN'', \<lparr>lat = Num 14.0583, lng = Num 108.2772, name = ''Vietnam''\<rparr>),
    (''MY'', \<lparr>lat = Num 4.2105, lng = Num 101.9758, name = ''Malaysia''\<rparr>),
    (''PH'', \<lparr>lat = Num 12.8797, lng = Num 121.774, name = ''Philippines''\<rparr>),
    (''SG'', \<lparr>lat = Num 1.3521, lng = Num 103.8198, name = ''Singapore''\<rparr>),
    (''IQ'', \<lparr>lat = Num 33.2232, lng = Num 43.6793, name = ''Iraq''\<rparr>),
    (''AF'', \<lparr>lat = Num 33.9391, lng = Num 67.7099, name = ''Afghanistan''\<rparr>),
    (''MM'', \<lparr>lat = Num 21.9162, lng = Num 95.956, name = ''Myanmar''\<rparr>),
    (''KZ'', \<lparr>lat = Num 48.0196, lng = Num 66.9237, name = ''Kazakhstan''\<rparr>),
    (''AE'', \<lparr>lat = Num 23.4241, lng = Num 53.8478, name = ''United Arab Emirates''\<rparr>),
    (''IL'', \<lparr>lat = Num 31.0461, lng = Num 34.8516, name = ''Israel''\<rparr>),
    (''JO'', \<lparr>lat = Num 30.5852, lng = Num 36.2384, name = ''Jordan''\<rparr>),
    (''LK'', \<lparr>lat = Num 7.8731, lng = Num 80.7718, name = ''Sri Lanka''\<rparr>),
    (''NP'', \<lparr>lat = Num 28.3949, lng = Num 84.124, name = ''Nepal''\<rparr>),
    (''BR'', \<lparr>lat = Num (- 14.235), lng = Num (- 51.9253), name = ''Brazil''\<rparr>),
    (''AR'', \<lparr>lat = Num (- 38.4161), lng = Num (- 63.6167), name = ''Argentina''\<rparr>),
    (''CO'', \<lparr>lat = Num 4.5709, lng = Num (- 74.2973), name = ''Colombia''\<rparr>),
    (''CL'', \<lparr>lat = Num (- 35.6751), lng = Num (- 71.543), name = ''Chile''\<rparr>),
    (''PE'', \<lparr>lat = Num (- 9.19), lng = Num (- 75.0152), name = ''Peru''\<rparr>),
    (''VE'', \<lparr>lat = Num 6.4238, lng = Num (- 66.5897), name = ''Venezuela''\<rparr>),
    (''EC'', \<lparr>lat = Num (- 1.8312), lng = Num (- 78.1834), name = ''Ecuador''\<rparr>),
    (''BO'', \<lparr>lat = Num (- 16.2902), lng = Num (- 63.5887), name = ''Bolivia''\<rparr>),
    (''PY'', \<lparr>lat = Num (- 23.4425), lng = Num (- 58.4438), name = ''Paraguay''\<rparr>),
    (''UY'', \<lparr>lat = Num (- 32.5228), lng = Num (- 55.7658), name = ''Uruguay''\<rparr>),
    (''ZA'', \<lparr>lat = Num (- 30.5595), lng = Num 22.9375, name = ''South Africa''\<rparr>),
    (''EG'', \<lparr>lat = Num 26.8206, lng = Num 30.8025, name = ''Egypt''\<rparr>),
    (''NG'', \<lparr>lat = Num 9.082, lng = Num 8.6753, name = ''Nigeria''\<rparr>),
    (''KE'', \<lparr>lat = Num (- 0.0236), lng = Num 37.9062, name = ''Kenya''\<rparr>),
    (''ET'', \<lparr>lat = Num 9.145, lng = Num 40.4897, name = ''Ethiopia''\<rparr>),
    (''GH'', \<lparr>lat = Num 7.9465, lng = Num (- 1.0232), name = ''Ghana''\<rparr>),
    (''TZ'', \<lparr>lat = Num (- 6.369), lng = Num 34.8888, name = ''Tanzania''\<rparr>),
    (''DZ'', \<lparr>lat = Num 28.0339, lng = Num 1.6596, name = ''Algeria''\<rparr>),
    (''MA'', \<lparr>lat = Num 31.7917, lng = Num (- 7.0926), name = ''Morocco''\<rparr>),
    (''AO'', \<lparr>lat = Num (- 11.2027), lng = Num 17.8739, name = ''Angola''\<rparr>),
    (''SD'', \<lparr>lat = Num 12.8628, lng = Num 30.2176, name = ''Sudan''\<rparr>),
    (''UG'', \<lparr>lat = Num 1.3733, lng = Num 32.2903, name = ''Uganda''\<rparr>),
    (''TN'', \<lparr>lat = Num 33.8869, lng = Num 9.5375, name = ''Tunisia''\<rparr>),
    (''ZW'', \<lparr>lat = Num (- 19.0154), lng = Num 29.1549, name = ''Zimbabwe''\<rparr>),
    (''LY'', \<lparr>lat = Num 26.3351, lng = Num 17.2283, name = ''Libya''\<rparr>),
    (''CM'', \<lparr>lat = Num 7.3697, lng = Num 12.3547, name = ''Cameroon''\<rparr>),
    (''SN'', \<lparr>lat = Num 14.4974, lng = Num (- 14.4524), name = ''Senegal''\<rparr>),
    (''AU'', \<lparr>lat = Num (- 25.2744), lng = Num 133.7751, name = ''Australia''\<rparr>),
    (''NZ'', \<lparr>lat = Num (- 40.9006), lng = Num 174.886, name = ''New Zealand''\<rparr>),
    (''PG'', \<lparr>lat = Num (- 6.315), lng = Num 143.9555, name = ''Papua New Guinea''\<rparr>),
    (''FJ'', \<lparr>lat = Num (- 17.7134), lng = Num 178.065, name = ''Fiji''\<rparr>),
    (''GT'', \<lparr>lat = Num 15.7835, lng = Num (- 90.2308), name = ''Guatemala''\<rparr>),
    (''CU'', \<lparr>lat = Num 21.5218, lng = Num (- 77.7812), name = ''Cuba''\<rparr>),
    (''HT'', \<lparr>lat = Num 18.9712, lng = Num (- 72.2852), name = ''Haiti''\<rparr>),
    (''DO'', \<lparr>lat = Num 18.7357, lng = Num (- 70.1627), name = ''Dominican Republic''\<rparr>),
    (''HN'', \<lparr>lat = Num 15.2, lng = Num (- 86.2419), name = ''Honduras''\<rparr>),
    (''SV'', \<lparr>lat = Num 13.7942, lng = Num (- 88.8965), name = ''El Salvador''\<rparr>),
    (''NI'', \<lparr>lat = Num 12.8654, lng = Num (- 85.2072), name = ''Nicaragua''\<rparr>),
    (''CR'', \<lparr>lat = Num 9.7489, lng = Num (- 83.7534), name = ''Costa Rica''\<rparr>),
    (''PA'', \<lparr>lat = Num 8.538, lng = Num (- 80.7821), name = ''Panama''\<rparr>),
    (''JM'', \<lparr>lat = Num 18.1096, lng = Num (- 77.2975), name = ''Jamaica''\<rparr>),
    (''IR'', \<lparr>lat = Num 32.4279, lng = Num 53.688, name = ''Iran''\<rparr>),
    (''SY'', \<lparr>lat = Num 34.8021, lng = Num 38.9968, name = ''Syria''\<rparr>),
    (''YE'', \<lparr>lat = Num 15.5527, lng = Num 48.5164, name = ''Yemen''\<rparr>),
    (''OM'', \<lparr>lat = Num 21.4735, lng = Num 55.9754, name = ''Oman''\<rparr>),
    (''KW'', \<lparr>lat = Num 29.3117, lng = Num 47.4818, name = ''Kuwait''\<rparr>),
    (''QA'', \<lparr>lat = Num 25.3548, lng = Num 51.1839, name = ''Qatar''\<rparr>),
    (''BH'', \<lparr>lat = Num 26.0667, lng = Num 50.5577, name = ''Bahrain''\<rparr>),
    (''LB'', \<lparr>lat = Num 33.8547, lng = Num 35.8623, name = ''Lebanon''\<rparr>)
  ]"

text \<open>
  \<open>String.prototype.toUpperCase\<close>, on the ASCII letters. Strings are byte strings
  here, and the case mapping of characters outside ASCII is not modelled.
\<close>

definition toUpperCase_char :: "char \<Rightarrow> char" where
  "toUpperCase_char c =
     (case map_of (zip ''abcdefghijklmnopqrstuvwxyz'' ''ABCDEFGHIJKLMNOPQRSTUVWXYZ'') c of
        Some u \<Rightarrow> u
      | None \<Rightarrow> c)"

definition toUpperCase :: "string \<Rightarrow> string" where
  "toUpperCase s = map toUpperCase_char s"

text \<open>
  \<open>COUNTRY_COORDINATES[countryCode.toUpperCase()]\<close> is \<open>undefined\<close> for an absent
  key, and \<open>coords || default\<close> then takes the default. (No property inherited from
  \<open>Object.prototype\<close> has an all-uppercase name, so the lookup of an uppercased key
  sees the table's own entries only.)
\<close>

definition getCountryCoordinates :: "string \<Rightarrow> CountryCoordinate" where
  "getCountryCoordinates countryCode =
     (case map_of COUNTRY_COORDINATES (toUpperCase countryCode) of
        Some coords \<Rightarrow> coords
      | None \<Rightarrow> \<lparr>lat = Num 0, lng = Num 0, name = countryCode\<rparr>)"

definition hasCountryCoordinates :: "string \<Rightarrow> bool" where
  "hasCountryCoordinates countryCode =
     (toUpperCase countryCode \<in> set (map fst COUNTRY_COORDINATES))"

section \<open>Emission records and their aggregation (globe-chart.component.ts)\<close>

datatype EmissionType = CO2 | CH4 | N2O | F_GASES

datatype Activity = ENERGY | TRANSPORT | AGRICULTURE | INDUSTRIAL | WASTE | OTHER

record Emission =
  e_id :: nat
  year :: int
  emissions :: jsnum
  country :: string
  emission_type :: EmissionType
  activity :: Activity
  created_at :: string

text \<open>The value objects of the \<open>Map\<close> built by the aggregator.\<close>

record Rollup =
  r_country :: string
  r_totalEmissions :: jsnum
  r_count :: nat

text \<open>
  A JavaScript \<open>Map\<close> iterates in insertion order, and the encoder below iterates the
  aggregator's map, so the map is an association list in insertion order. One pass of
  the \<open>forEach\<close> callback: an existing value object is updated in place (it keeps its
  position), a new key is appended.
\<close>

definition aggregate_record :: "(string \<times> Rollup) list \<Rightarrow> Emission \<Rightarrow> (string \<times> Rollup) list" where
  "aggregate_record aggregated emission =
     (case map_of aggregated (country emission) of
        Some existing \<Rightarrow>
          AList.map_entry (country emission)
            (\<lambda>r. r\<lparr>r_totalEmissions := jsadd (r_totalEmissions r) (emissions emission),
                    r_count := r_count r + 1\<rparr>) aggregated
      | None \<Rightarrow>
          aggregated @ [(country emission,
            \<lparr>r_country = country emission, r_totalEmissions = emissions emission, r_count = 1\<rparr>)])"

definition aggregateEmissionsByCountry :: "Emission list \<Rightarrow> (string \<times> Rollup) list" where
  "aggregateEmissionsByCountry es = foldl aggregate_record [] es"

text \<open>
  The sum of a list of numbers, accumulated from the left in list order: what the
  specification calls the sum of the \<open>emissions\<close> fields.
\<close>

definition js_sum :: "jsnum list \<Rightarrow> jsnum" where
  "js_sum xs = foldl jsadd (Num 0) xs"

definition emissions_of :: "string \<Rightarrow> Emission list \<Rightarrow> Emission list" where
  "emissions_of c es = filter (\<lambda>e. country e = c) es"

section \<open>Visual encoding\<close>

text \<open>
  The label is a markup template around four interpolated values; the model keeps the
  values (display name, code, total before number formatting, record count).
\<close>

record GlobePointData =
  p_lat :: jsnum
  p_lng :: jsnum
  p_country :: string
  p_totalEmissions :: jsnum
  p_size :: jsnum
  p_color :: string
  p_label :: "string \<times> string \<times> jsnum \<times> nat"

definition getColorForEmissions :: "jsnum \<Rightarrow> string" where
  "getColorForEmissions normalized =
     (if jslt normalized (Num 0.25) then ''#00ff00''
      else if jslt normalized (Num 0.5) then ''#ffff00''
      else if jslt normalized (Num 0.75) then ''#ff8800''
      else ''#ff0000'')"

text \<open>The first loop of \<open>transformToGlobePoints\<close>: the running maximum, started at 0.\<close>

definition maxEmissions :: "(string \<times> Rollup) list \<Rightarrow> jsnum" where
  "maxEmissions countryData =
     foldl (\<lambda>m d. if jsgt (r_totalEmissions d) m then r_totalEmissions d else m)
       (Num 0) (map snd countryData)"

definition normalizedEmissions :: "jsnum \<Rightarrow> Rollup \<Rightarrow> jsnum" where
  "normalizedEmissions m d = jsdiv (r_totalEmissions d) m"

text \<open>The body of the second loop: the point pushed for one value object.\<close>

definition globePoint :: "jsnum \<Rightarrow> Rollup \<Rightarrow> GlobePointData" where
  "globePoint m d =
     (let coords = getCountryCoordinates (r_country d);
          normalized = normalizedEmissions m d;
          size = jsadd (Num 0.05) (jsmul normalized (Num 0.3));
          color = getColorForEmissions normalized
      in \<lparr>p_lat = lat coords, p_lng = lng coords, p_country = r_country d,
           p_totalEmissions = r_totalEmissions d, p_size = size, p_color = color,
           p_label = (name coords, r_country d, r_totalEmissions d, r_count d)\<rparr>)"

definition transformToGlobePoints :: "(string \<times> Rollup) list \<Rightarrow> GlobePointData list" where
  "transformToGlobePoints countryData =
     map (globePoint (maxEmissions countryData)) (map snd countryData)"


section \<open>The globe component: state\<close>

text \<open>
  The objects of the rendering library are opaque to the component, which only tests
  them against \<open>null\<close>, calls them and drops them. A scene is known by its list of
  children, the globe by the point set it was last given and by its rotation.
\<close>

datatype object3d = GlobeObject | AmbientLight | DirectionalLight | BackLight

datatype camera_obj = PerspectiveCamera

datatype renderer_obj = WebGLRenderer

datatype raycaster_obj = Raycaster

datatype observer_obj = ResizeObserver

record Rotation =
  rot_x :: jsnum
  rot_y :: jsnum

record Vector2 =
  vec_x :: jsnum
  vec_y :: jsnum

record ThreeGlobe =
  pointsData :: "GlobePointData list"
  rotation :: Rotation

datatype output_event = countrySelected string | countryHovered "string option"

text \<open>
  The fields of \<open>GlobeChartComponent\<close> that its methods read or write, followed by the
  part of the host the methods act on: the events given to the two outputs, the queue of
  animation-frame callbacks that were requested and neither run nor cancelled, the
  identifier the next request returns, two counters of calls
  (\<open>renderer.render\<close> and \<open>handleCountryClick\<close>), and whether the dynamic imports
  awaited by \<open>initializeGlobe\<close> have been started and have not resolved yet. No field
  of the class records that \<open>cleanup\<close> has run.
\<close>

record component =
  isBrowser :: bool
  hoveredCountry :: "string option"
  scene :: "object3d list option"
  camera :: "camera_obj option"
  renderer :: "renderer_obj option"
  globe :: "ThreeGlobe option"
  animationFrameId :: "nat option"
  resizeObserver :: "observer_obj option"
  raycaster :: "raycaster_obj option"
  mouse :: "Vector2 option"
  isUserInteracting :: bool
  mouseDownTime :: int
  cameraDistance :: jsnum
  targetRotation :: Rotation
  currentRotation :: Rotation
  emitted :: "output_event list"
  frameQueue :: "nat list"
  nextFrameId :: nat
  drawCalls :: nat
  clickPathCalls :: nat
  importsPending :: bool

text \<open>The field initialisers; the platform check is the argument.\<close>

definition new_component :: "bool \<Rightarrow> component" where
  "new_component browser =
     \<lparr>isBrowser = browser, hoveredCountry = None, scene = None, camera = None,
      renderer = None, globe = None, animationFrameId = None, resizeObserver = None,
      raycaster = None, mouse = None, isUserInteracting = False, mouseDownTime = 0,
      cameraDistance = Num 250,
      targetRotation = \<lparr>rot_x = Num 0, rot_y = Num 0\<rparr>,
      currentRotation = \<lparr>rot_x = Num 0, rot_y = Num 0\<rparr>,
      emitted = [], frameQueue = [], nextFrameId = 1, drawCalls = 0, clickPathCalls = 0,
      importsPending = False\<rparr>"

text \<open>
  Reading a member of \<open>null\<close> throws a \<open>TypeError\<close>. The member accesses of
  \<open>onMouseMove\<close> and \<open>cleanup\<close> go through \<open>deref\<close>, inside the guards the source
  has and nowhere else; the calls into the rendering library and the DOM are taken not
  to throw.
\<close>

datatype js_error = TypeError

definition deref :: "'a option \<Rightarrow> js_error + 'a" where
  "deref v = (case v of None \<Rightarrow> Inl TypeError | Some a \<Rightarrow> Inr a)"

definition bindE :: "js_error + 'a \<Rightarrow> ('a \<Rightarrow> js_error + 'b) \<Rightarrow> js_error + 'b" where
  "bindE m f = (case m of Inl e \<Rightarrow> Inl e | Inr a \<Rightarrow> f a)"

section \<open>Data updates\<close>

definition updateGlobeData :: "Emission list \<Rightarrow> component \<Rightarrow> component" where
  "updateGlobeData es s =
     (case globe s of
        None \<Rightarrow> s
      | Some g \<Rightarrow>
          (let countryData = aggregateEmissionsByCountry es;
               globePoints = transformToGlobePoints countryData
           in s\<lparr>globe := Some (g\<lparr>pointsData := globePoints\<rparr>)\<rparr>))"

text \<open>
  \<open>initializeGlobe\<close> from the point where the two dynamic imports have resolved, for a
  component whose container is present: scene, camera, renderer, globe, three lights,
  raycaster, pointer vector, resize observer, first data.
\<close>

definition setupResizeObserver :: "component \<Rightarrow> component" where
  "setupResizeObserver s =
     (if \<not> isBrowser s then s else s\<lparr>resizeObserver := Some ResizeObserver\<rparr>)"

definition initializeGlobe :: "Emission list \<Rightarrow> component \<Rightarrow> component" where
  "initializeGlobe es s =
     (let s1 = s\<lparr>scene := Some [], camera := Some PerspectiveCamera,
                  renderer := Some WebGLRenderer\<rparr>;
          s2 = s1\<lparr>globe := Some \<lparr>pointsData = [],
                                   rotation = \<lparr>rot_x = Num 0, rot_y = Num 0\<rparr>\<rparr>,
                   scene := Some [GlobeObject, AmbientLight, DirectionalLight, BackLight]\<rparr>;
          s3 = s2\<lparr>raycaster := Some Raycaster,
                   mouse := Some \<lparr>vec_x = Num 0, vec_y = Num 0\<rparr>\<rparr>;
          s4 = setupResizeObserver s3
      in if 0 < length es then updateGlobeData es s4 else s4)"

section \<open>Pointer interaction\<close>

record MouseEvent =
  clientX :: jsnum
  clientY :: jsnum
  buttons :: nat
  movementX :: jsnum
  movementY :: jsnum

record DOMRect =
  rect_left :: jsnum
  rect_top :: jsnum
  rect_width :: jsnum
  rect_height :: jsnum

text \<open>
  The raycaster's answer is an input: the number of intersected objects. The source
  reads the globe's point set when that number is positive and does nothing with it.
\<close>

definition detectHoveredCountry :: "nat \<Rightarrow> component \<Rightarrow> component" where
  "detectHoveredCountry intersects s =
     (if raycaster s = None \<or> camera s = None \<or> scene s = None \<or> globe s = None then s
      else if 0 < intersects then (case globe s of None \<Rightarrow> s | Some g \<Rightarrow> (let pd = pointsData g in s))
      else s)"

definition onMouseMove :: "MouseEvent \<Rightarrow> DOMRect \<Rightarrow> nat \<Rightarrow> component \<Rightarrow> js_error + component" where
  "onMouseMove event rect intersects s =
     (if renderer s = None \<or> camera s = None \<or> scene s = None then Inr s
      else bindE (deref (mouse s)) (\<lambda>m.
        let mx = jssub (jsmul (jsdiv (jssub (clientX event) (rect_left rect)) (rect_width rect)) (Num 2)) (Num 1);
            my = jsadd (jsmul (jsneg (jsdiv (jssub (clientY event) (rect_top rect)) (rect_height rect))) (Num 2)) (Num 1);
            s1 = s\<lparr>mouse := Some \<lparr>vec_x = mx, vec_y = my\<rparr>\<rparr>;
            s2 = (if isUserInteracting s1 \<and> buttons event = 1 then
                    (let ty = jsadd (rot_y (targetRotation s1)) (jsmul (movementX event) (Num 0.005));
                         tx = jsadd (rot_x (targetRotation s1)) (jsmul (movementY event) (Num 0.005));
                         tx' = Math_max (jsdiv (jsneg Math_PI) (Num 2))
                                 (Math_min (jsdiv Math_PI (Num 2)) tx)
                     in s1\<lparr>targetRotation := \<lparr>rot_x = tx', rot_y = ty\<rparr>\<rparr>)
                  else s1)
        in Inr (detectHoveredCountry intersects s2)))"

text \<open>\<open>Date.now()\<close> is an input of the two handlers that read the clock.\<close>

definition onMouseDown :: "int \<Rightarrow> component \<Rightarrow> component" where
  "onMouseDown now s = s\<lparr>isUserInteracting := True, mouseDownTime := now\<rparr>"

text \<open>A string is truthy when it is neither \<open>null\<close> nor empty.\<close>

definition handleCountryClick :: "component \<Rightarrow> component" where
  "handleCountryClick s =
     (let s1 = s\<lparr>clickPathCalls := clickPathCalls s + 1\<rparr>
      in case hoveredCountry s1 of
           None \<Rightarrow> s1
         | Some c \<Rightarrow> if c \<noteq> [] then s1\<lparr>emitted := emitted s1 @ [countrySelected c]\<rparr> else s1)"

definition onMouseUp :: "int \<Rightarrow> component \<Rightarrow> component" where
  "onMouseUp now s =
     (let s1 = s\<lparr>isUserInteracting := False\<rparr>
      in if now - mouseDownTime s1 < 200 then handleCountryClick s1 else s1)"

definition onTouchStart :: "nat \<Rightarrow> int \<Rightarrow> component \<Rightarrow> component" where
  "onTouchStart touches now s =
     (if touches = 1 then s\<lparr>isUserInteracting := True, mouseDownTime := now\<rparr> else s)"

definition onTouchMove :: "component \<Rightarrow> component" where
  "onTouchMove s = s"

text \<open>
  The listeners registered by \<open>setupEventListeners\<close>. An exception thrown by a listener
  ends that listener; \<open>onMouseMove\<close> can only throw before its first assignment, so the
  state is then the one before the event.
\<close>

datatype pointer_event =
  MouseMove MouseEvent DOMRect nat
| MouseDown int
| MouseUp int
| TouchStart nat int
| TouchMove

fun dispatch :: "pointer_event \<Rightarrow> component \<Rightarrow> component" where
  "dispatch (MouseMove event rect intersects) s =
     (case onMouseMove event rect intersects s of Inl e \<Rightarrow> s | Inr s' \<Rightarrow> s')"
| "dispatch (MouseDown now) s = onMouseDown now s"
| "dispatch (MouseUp now) s = onMouseUp now s"
| "dispatch (TouchStart touches now) s = onTouchStart touches now s"
| "dispatch TouchMove s = onTouchMove s"

definition run_pointer :: "pointer_event list \<Rightarrow> component \<Rightarrow> component" where
  "run_pointer evs s = foldl (\<lambda>s' e. dispatch e s') s evs"

definition focusOnCountry :: "string \<Rightarrow> component \<Rightarrow> component" where
  "focusOnCountry countryCode s =
     (let coords = getCountryCoordinates countryCode;
          targetY = jsdiv (jsmul (jsneg (lng coords)) Math_PI) (Num 180);
          targetX = jsdiv (jsmul (lat coords) Math_PI) (Num 180)
      in s\<lparr>targetRotation := \<lparr>rot_x = targetX, rot_y = targetY\<rparr>\<rparr>)"

section \<open>Render loop and teardown\<close>

definition requestAnimationFrame :: "component \<Rightarrow> nat \<times> component" where
  "requestAnimationFrame s =
     (nextFrameId s,
      s\<lparr>frameQueue := frameQueue s @ [nextFrameId s], nextFrameId := nextFrameId s + 1\<rparr>)"

definition cancelAnimationFrame :: "nat \<Rightarrow> component \<Rightarrow> component" where
  "cancelAnimationFrame fid s = s\<lparr>frameQueue := removeAll fid (frameQueue s)\<rparr>"

definition animate :: "component \<Rightarrow> component" where
  "animate s =
     (if \<not> isBrowser s then s
      else
        (let (fid, s0) = requestAnimationFrame s;
             s1 = s0\<lparr>animationFrameId := Some fid\<rparr>;
             cx = jsadd (rot_x (currentRotation s1))
                    (jsmul (jssub (rot_x (targetRotation s1)) (rot_x (currentRotation s1))) (Num 0.1));
             s2 = s1\<lparr>currentRotation := (currentRotation s1)\<lparr>rot_x := cx\<rparr>\<rparr>;
             cy = jsadd (rot_y (currentRotation s2))
                    (jsmul (jssub (rot_y (targetRotation s2)) (rot_y (currentRotation s2))) (Num 0.1));
             s3 = s2\<lparr>currentRotation := (currentRotation s2)\<lparr>rot_y := cy\<rparr>\<rparr>;
             s4 = (case globe s3 of
                     None \<Rightarrow> s3
                   | Some g \<Rightarrow>
                       s3\<lparr>globe := Some (g\<lparr>rotation :=
                         \<lparr>rot_x = rot_x (currentRotation s3), rot_y = rot_y (currentRotation s3)\<rparr>\<rparr>)\<rparr>);
             s5 = (if \<not> isUserInteracting s4
                   then s4\<lparr>targetRotation := (targetRotation s4)
                          \<lparr>rot_y := jsadd (rot_y (targetRotation s4)) (Num 0.001)\<rparr>\<rparr>
                   else s4)
         in if scene s5 \<noteq> None \<and> camera s5 \<noteq> None \<and> renderer s5 \<noteq> None
            then s5\<lparr>drawCalls := drawCalls s5 + 1\<rparr> else s5))"

text \<open>
  \<open>Object3D.remove\<close> of the rendering library takes the first occurrence of the object
  out of the children. The loop of \<open>cleanup\<close> removes the first child until none is
  left, reading \<open>this.scene\<close> on every round.
\<close>

definition scene_remove :: "object3d \<Rightarrow> object3d list \<Rightarrow> object3d list" where
  "scene_remove obj children = remove1 obj children"

function clearScene :: "component \<Rightarrow> js_error + component" where
  "clearScene s =
     (case scene s of
        None \<Rightarrow> Inl TypeError
      | Some children \<Rightarrow>
          if 0 < length children
          then clearScene (s\<lparr>scene := Some (scene_remove (children ! 0) children)\<rparr>)
          else Inr s)"
  by pat_completeness auto
termination
proof (relation "measure (\<lambda>s. case scene s of None \<Rightarrow> 0 | Some children \<Rightarrow> length children)")
  show "wf (measure (\<lambda>s. case scene s of None \<Rightarrow> 0 | Some children \<Rightarrow> length children))"
    by simp
next
  fix s :: component and children
  assume "scene s = Some children" and "0 < length children"
  then obtain c cs where "children = c # cs"
    by (cases children) auto
  with \<open>scene s = Some children\<close>
  show "(s\<lparr>scene := Some (scene_remove (children ! 0) children)\<rparr>, s)
      \<in> measure (\<lambda>s. case scene s of None \<Rightarrow> 0 | Some children \<Rightarrow> length children)"
    by (simp add: scene_remove_def)
qed

declare clearScene.simps [simp del]

definition cleanup :: "component \<Rightarrow> js_error + component" where
  "cleanup s =
     (let s1 = (case animationFrameId s of
                  Some fid \<Rightarrow> (cancelAnimationFrame fid s)\<lparr>animationFrameId := None\<rparr>
                | None \<Rightarrow> s)
      in bindE (if resizeObserver s1 \<noteq> None
                then bindE (deref (resizeObserver s1)) (\<lambda>observer. Inr (s1\<lparr>resizeObserver := None\<rparr>))
                else Inr s1) (\<lambda>s2.
         let s3 = (if globe s2 \<noteq> None
                   then (case scene s2 of
                           None \<Rightarrow> s2
                         | Some children \<Rightarrow> s2\<lparr>scene := Some (scene_remove GlobeObject children)\<rparr>)
                        \<lparr>globe := None\<rparr>
                   else s2)
         in bindE (if renderer s3 \<noteq> None
                   then bindE (deref (renderer s3)) (\<lambda>r1.
                        bindE (deref (renderer s3)) (\<lambda>r2. Inr (s3\<lparr>renderer := None\<rparr>)))
                   else Inr s3) (\<lambda>s4.
            bindE (if scene s4 \<noteq> None
                   then bindE (clearScene s4) (\<lambda>s'. Inr (s'\<lparr>scene := None\<rparr>))
                   else Inr s4) (\<lambda>s5.
              Inr (s5\<lparr>camera := None, raycaster := None\<rparr>)))))"

text \<open>
  \<open>ngAfterViewInit\<close> starts \<open>initializeGlobeAsync\<close> without awaiting it, on the browser
  platform and with the container present (the argument). That method runs up to the
  \<open>await\<close> of the two dynamic imports in \<open>initializeGlobe\<close>, which changes no field, and
  the host resumes it when the imports have resolved: the rest of \<open>initializeGlobe\<close>,
  then \<open>setupEventListeners\<close> (which registers the handlers above), then \<open>animate\<close>.
  The list is the value of the \<open>emissions\<close> input at that moment. The rejection of an
  import is not modelled.
\<close>

definition ngAfterViewInit :: "bool \<Rightarrow> component \<Rightarrow> component" where
  "ngAfterViewInit container s =
     (if \<not> isBrowser s \<or> \<not> container then s else s\<lparr>importsPending := True\<rparr>)"

definition initializeGlobeAsync :: "Emission list \<Rightarrow> component \<Rightarrow> component" where
  "initializeGlobeAsync es s = animate (initializeGlobe es s)"

text \<open>
  What the host can do to a component: finish the view (\<open>ngAfterViewInit\<close>), resolve
  the pending imports (which resumes \<open>initializeGlobeAsync\<close>), deliver a pointer event,
  run the oldest queued animation-frame callback (which is \<open>animate\<close>), set the
  \<open>selectedCountry\<close> input (whose effect focuses when the platform is a browser and the
  code is truthy), and destroy the component (\<open>ngOnDestroy\<close> calls \<open>cleanup\<close>).
\<close>

datatype action =
  ViewInit bool
| ImportsResolved "Emission list"
| Pointer pointer_event
| AnimationFrame
| SelectCountry string
| Destroy

fun step :: "action \<Rightarrow> component \<Rightarrow> component" where
  "step (ViewInit container) s = ngAfterViewInit container s"
| "step (ImportsResolved es) s =
     (if importsPending s then initializeGlobeAsync es (s\<lparr>importsPending := False\<rparr>) else s)"
| "step (Pointer e) s = dispatch e s"
| "step AnimationFrame s =
     (case frameQueue s of [] \<Rightarrow> s | fid # rest \<Rightarrow> animate (s\<lparr>frameQueue := rest\<rparr>))"
| "step (SelectCountry c) s = (if isBrowser s \<and> c \<noteq> [] then focusOnCountry c s else s)"
| "step Destroy s = (case cleanup s of Inl e \<Rightarrow> s | Inr s' \<Rightarrow> s')"

definition run :: "action list \<Rightarrow> component \<Rightarrow> component" where
  "run acts s = foldl (\<lambda>s' a. step a s') s acts"

text \<open>The events that report pointer movement.\<close>

fun is_movement :: "pointer_event \<Rightarrow> bool" where
  "is_movement (MouseMove event rect intersects) = True"
| "is_movement TouchMove = True"
| "is_movement e = False"

text \<open>
  The render loop keeps at most one callback queued, the one whose identifier is in
  \<open>animationFrameId\<close>, and none while the imports are pending.
\<close>

definition loop_inv :: "component \<Rightarrow> bool" where
  "loop_inv s =
     (case frameQueue s of
        [] \<Rightarrow> True
      | [fid] \<Rightarrow> animationFrameId s = Some fid \<and> \<not> importsPending s
      | fid # fid' # rest \<Rightarrow> False)"

text \<open>The action that starts the initialization.\<close>

fun is_view_init :: "action \<Rightarrow> bool" where
  "is_view_init (ViewInit container) = True"
| "is_view_init a = False"

section \<open>Arithmetic of the number model\<close>

lemma jsadd_zero_left: "jsadd (Num 0) x = x"
  by (cases x) simp_all

lemma jsmul_commute: "jsmul a b = jsmul b a"
  by (cases a; cases b) (simp_all add: mult.commute)

lemma isFinite_iff: "isFinite v \<longleftrightarrow> (\<exists>a. v = Num a)"
  by (cases v) simp_all

lemma jsle_Num: "jsle (Num a) (Num b) \<longleftrightarrow> a \<le> b"
  by (auto simp: jsle_def)

lemma jsle_NaN: "\<not> jsle NaN v" "\<not> jsle v NaN"
  by (simp_all add: jsle_def)

lemma js_sum_snoc: "js_sum (xs @ [x]) = jsadd (js_sum xs) x"
  by (simp add: js_sum_def)

lemma js_sum_single: "js_sum [x] = x"
  by (simp add: js_sum_def jsadd_zero_left)

text \<open>On finite numbers the accumulated sum is the sum of the reals.\<close>

lemma js_sum_Num: "js_sum (map Num rs) = Num (sum_list rs)"
proof (induction rs rule: rev_induct)
  case Nil
  show ?case by (simp add: js_sum_def)
next
  case (snoc r rs)
  then show ?case by (simp add: js_sum_snoc)
qed

section \<open>The aggregator\<close>

lemma aggregate_snoc:
  "aggregateEmissionsByCountry (es @ [e]) = aggregate_record (aggregateEmissionsByCountry es) e"
  by (simp add: aggregateEmissionsByCountry_def)

lemma keys_aggregate_record:
  "fst ` set (aggregate_record agg e) = insert (country e) (fst ` set agg)"
  unfolding aggregate_record_def
  by (auto simp: AList.dom_map_entry map_of_eq_None_iff split: option.splits dest: map_of_SomeD
      intro: rev_image_eqI)

lemma distinct_aggregate_record:
  "distinct (map fst agg) \<Longrightarrow> distinct (map fst (aggregate_record agg e))"
  unfolding aggregate_record_def
  by (auto simp: AList.distinct_map_entry map_of_eq_None_iff split: option.splits)

lemma keys_aggregate: "fst ` set (aggregateEmissionsByCountry es) = country ` set es"
proof (induction es rule: rev_induct)
  case Nil
  show ?case by (simp add: aggregateEmissionsByCountry_def)
next
  case (snoc e es)
  then show ?case by (simp add: aggregate_snoc keys_aggregate_record)
qed

lemma distinct_aggregate: "distinct (map fst (aggregateEmissionsByCountry es))"
proof (induction es rule: rev_induct)
  case Nil
  show ?case by (simp add: aggregateEmissionsByCountry_def)
next
  case (snoc e es)
  then show ?case by (simp add: aggregate_snoc distinct_aggregate_record)
qed

lemma map_of_aggregate:
  "map_of (aggregateEmissionsByCountry es) c =
     (if c \<in> country ` set es
      then Some \<lparr>r_country = c,
                 r_totalEmissions = js_sum (map emissions (emissions_of c es)),
                 r_count = length (emissions_of c es)\<rparr>
      else None)"
proof (induction es arbitrary: c rule: rev_induct)
  case Nil
  show ?case by (simp add: aggregateEmissionsByCountry_def)
next
  case (snoc e es)
  let ?agg = "aggregateEmissionsByCountry es"
  show ?case
  proof (cases "country e \<in> country ` set es")
    case True
    then have ex: "map_of ?agg (country e) \<noteq> None"
      using snoc by simp
    show ?thesis
      using snoc True ex
      by (auto simp: aggregate_snoc aggregate_record_def AList.map_of_map_entry
          emissions_of_def js_sum_snoc)
  next
    case False
    then have ex: "map_of ?agg (country e) = None"
      using snoc by simp
    from False have none: "filter (\<lambda>a. country a = country e) es = []"
      by (force simp: filter_empty_conv image_iff)
    show ?thesis
      using snoc False ex none
      by (auto simp: aggregate_snoc aggregate_record_def
          emissions_of_def js_sum_single map_add_def split: option.splits)
  qed
qed

text \<open>
  C3. The aggregator returns exactly one rollup per distinct country code of the list
  (the keys of the result are pairwise different and are the country codes that occur);
  the rollup of a code carries the code, the sum of the \<open>emissions\<close> of the records
  with that code, accumulated in list order, and the number of those records; the
  empty list gives the empty mapping. The result is a function of the list alone.
\<close>

theorem aggregateEmissionsByCountry_rollups:
  "aggregateEmissionsByCountry [] = [] \<and>
   distinct (map fst (aggregateEmissionsByCountry es)) \<and>
   set (map fst (aggregateEmissionsByCountry es)) = country ` set es \<and>
   map_of (aggregateEmissionsByCountry es) c =
     (if c \<in> country ` set es
      then Some \<lparr>r_country = c,
                 r_totalEmissions = js_sum (map emissions (emissions_of c es)),
                 r_count = length (emissions_of c es)\<rparr>
      else None)"
  using keys_aggregate [of es] distinct_aggregate [of es] map_of_aggregate [of es c]
  by (simp add: aggregateEmissionsByCountry_def)

theorem aggregateEmissionsByCountry_rollups_witness:
  "map_of (aggregateEmissionsByCountry
     [\<lparr>e_id = 1, year = 2020, emissions = Num 1.5, country = ''US'', emission_type = CO2,
        activity = ENERGY, created_at = ''''\<rparr>,
      \<lparr>e_id = 2, year = 2020, emissions = Num 2, country = ''DE'', emission_type = CH4,
        activity = WASTE, created_at = ''''\<rparr>,
      \<lparr>e_id = 3, year = 2021, emissions = Num 2.5, country = ''US'', emission_type = CO2,
        activity = TRANSPORT, created_at = ''''\<rparr>]) ''US''
   = Some \<lparr>r_country = ''US'', r_totalEmissions = Num 4, r_count = 2\<rparr>"
  using aggregateEmissionsByCountry_rollups [of
     "[\<lparr>e_id = 1, year = 2020, emissions = Num 1.5, country = ''US'', emission_type = CO2,
        activity = ENERGY, created_at = ''''\<rparr>,
      \<lparr>e_id = 2, year = 2020, emissions = Num 2, country = ''DE'', emission_type = CH4,
        activity = WASTE, created_at = ''''\<rparr>,
      \<lparr>e_id = 3, year = 2021, emissions = Num 2.5, country = ''US'', emission_type = CO2,
        activity = TRANSPORT, created_at = ''''\<rparr>]" "''US''"]
  by (simp add: emissions_of_def js_sum_def)

section \<open>The colour bands\<close>

text \<open>
  C5. On a normalized value in [0,1] the colour is green (\<open>#00ff00\<close>) on [0,0.25),
  yellow (\<open>#ffff00\<close>) on [0.25,0.5), orange (\<open>#ff8800\<close>) on [0.5,0.75) and red
  (\<open>#ff0000\<close>) on [0.75,1]; in particular at 0.24, 0.25, 0.49, 0.50, 0.74, 0.75 and 1.
\<close>

theorem getColorForEmissions_bands:
  "(0 \<le> r \<and> r < 0.25 \<longrightarrow> getColorForEmissions (Num r) = ''#00ff00'') \<and>
   (0.25 \<le> r \<and> r < 0.5 \<longrightarrow> getColorForEmissions (Num r) = ''#ffff00'') \<and>
   (0.5 \<le> r \<and> r < 0.75 \<longrightarrow> getColorForEmissions (Num r) = ''#ff8800'') \<and>
   (0.75 \<le> r \<and> r \<le> 1 \<longrightarrow> getColorForEmissions (Num r) = ''#ff0000'') \<and>
   getColorForEmissions (Num 0.24) = ''#00ff00'' \<and>
   getColorForEmissions (Num 0.25) = ''#ffff00'' \<and>
   getColorForEmissions (Num 0.49) = ''#ffff00'' \<and>
   getColorForEmissions (Num 0.50) = ''#ff8800'' \<and>
   getColorForEmissions (Num 0.74) = ''#ff8800'' \<and>
   getColorForEmissions (Num 0.75) = ''#ff0000'' \<and>
   getColorForEmissions (Num 1.0) = ''#ff0000''"
  by (simp add: getColorForEmissions_def)

theorem getColorForEmissions_bands_witness:
  "getColorForEmissions (Num 0.1) = ''#00ff00'' \<and>
   getColorForEmissions (Num 0.3) = ''#ffff00'' \<and>
   getColorForEmissions (Num 0.6) = ''#ff8800'' \<and>
   getColorForEmissions (Num 0.9) = ''#ff0000''"
  using getColorForEmissions_bands [of "0.1"] getColorForEmissions_bands [of "0.3"]
    getColorForEmissions_bands [of "0.6"] getColorForEmissions_bands [of "0.9"]
  by simp

section \<open>The coordinate lookup\<close>

lemma table_finite:
  "list_all (\<lambda>(k, c). isFinite (lat c) \<and> isFinite (lng c)) COUNTRY_COORDINATES"
  unfolding COUNTRY_COORDINATES_def
  by (simp only: list.pred_inject split_conv CountryCoordinate.simps isFinite.simps simp_thms)

lemma getCountryCoordinates_finite:
  "\<exists>a b. lat (getCountryCoordinates code) = Num a \<and> lng (getCountryCoordinates code) = Num b"
proof (cases "map_of COUNTRY_COORDINATES (toUpperCase code)")
  case None
  then show ?thesis by (simp add: getCountryCoordinates_def)
next
  case (Some coords)
  then have "(toUpperCase code, coords) \<in> set COUNTRY_COORDINATES"
    by (rule map_of_SomeD)
  with table_finite have "isFinite (lat coords) \<and> isFinite (lng coords)"
    by (auto simp: list_all_iff)
  with Some show ?thesis
    by (simp add: getCountryCoordinates_def isFinite_iff)
qed

lemma lookup_ZZ: "map_of COUNTRY_COORDINATES ''ZZ'' = None"
  unfolding COUNTRY_COORDINATES_def by simp

lemma lookup_US:
  "map_of COUNTRY_COORDINATES ''US''
     = Some \<lparr>lat = Num 37.0902, lng = Num (- 95.7129), name = ''United States''\<rparr>"
  unfolding COUNTRY_COORDINATES_def by simp

lemma toUpperCase_examples: "toUpperCase ''ZZ'' = ''ZZ''" "toUpperCase ''us'' = ''US''"
  "toUpperCase ''US'' = ''US''"
  by (simp_all add: toUpperCase_def toUpperCase_char_def)

lemma length_transformToGlobePoints:
  "length (transformToGlobePoints countryData) = length countryData"
  by (simp add: transformToGlobePoints_def)

lemma countries_transformToGlobePoints:
  "map p_country (transformToGlobePoints countryData) = map (\<lambda>(k, d). r_country d) countryData"
  by (simp add: transformToGlobePoints_def globePoint_def Let_def case_prod_unfold)

text \<open>
  C6. The lookup has a value for every code: the table's entry for the uppercased code
  when there is one, and otherwise latitude 0, longitude 0 and the code as given as the
  name. It has no failing branch, and the encoder makes one point per rollup, in order,
  with the rollup's country code.
\<close>

theorem getCountryCoordinates_total:
  "(\<forall>coords. map_of COUNTRY_COORDINATES (toUpperCase code) = Some coords
      \<longrightarrow> getCountryCoordinates code = coords) \<and>
   (toUpperCase code \<notin> fst ` set COUNTRY_COORDINATES
      \<longrightarrow> getCountryCoordinates code = \<lparr>lat = Num 0, lng = Num 0, name = code\<rparr>) \<and>
   length (transformToGlobePoints countryData) = length countryData \<and>
   map p_country (transformToGlobePoints countryData) = map (\<lambda>(k, d). r_country d) countryData"
  using length_transformToGlobePoints [of countryData]
    countries_transformToGlobePoints [of countryData]
  by (auto simp: getCountryCoordinates_def map_of_eq_None_iff [symmetric])

theorem getCountryCoordinates_total_witness:
  "getCountryCoordinates ''ZZ'' = \<lparr>lat = Num 0, lng = Num 0, name = ''ZZ''\<rparr> \<and>
   getCountryCoordinates ''us''
     = \<lparr>lat = Num 37.0902, lng = Num (- 95.7129), name = ''United States''\<rparr>"
  using getCountryCoordinates_total [of "''ZZ''" "[]"] getCountryCoordinates_total [of "''us''" "[]"]
    lookup_ZZ lookup_US
  by (simp add: toUpperCase_examples map_of_eq_None_iff [symmetric])

section \<open>Focus on a country\<close>

lemma focusOnCountry_Num:
  assumes "lat (getCountryCoordinates code) = Num a" and "lng (getCountryCoordinates code) = Num b"
  shows "focusOnCountry code s
    = s\<lparr>targetRotation := \<lparr>rot_x = Num (a * pi / 180), rot_y = Num (- b * pi / 180)\<rparr>\<rparr>"
  using assms by (simp add: focusOnCountry_def Math_PI_def Let_def)

text \<open>
  C7. The coordinates of every code are finite numbers \<open>lat\<close>, \<open>lng\<close>, and a focus
  request makes the target rotation \<open>x = lat * \<pi> / 180\<close>, \<open>y = - lng * \<pi> / 180\<close> whatever
  the target was before, and changes nothing else (neither the current rotation nor the
  pointer state). At \<open>lat = 0\<close>, \<open>lng = 90\<close> these are \<open>0\<close> and \<open>- \<pi> / 2\<close>.
\<close>

theorem focusOnCountry_targetRotation:
  "\<exists>a b. lat (getCountryCoordinates code) = Num a \<and> lng (getCountryCoordinates code) = Num b \<and>
     focusOnCountry code s
       = s\<lparr>targetRotation := \<lparr>rot_x = Num (a * pi / 180), rot_y = Num (- b * pi / 180)\<rparr>\<rparr> \<and>
     targetRotation (focusOnCountry code s)
       = \<lparr>rot_x = Num (a * pi / 180), rot_y = Num (- b * pi / 180)\<rparr> \<and>
     Num (0 * pi / 180) = Num 0 \<and> Num (- 90 * pi / 180) = Num (- pi / 2)"
proof -
  obtain a b where ab: "lat (getCountryCoordinates code) = Num a"
      "lng (getCountryCoordinates code) = Num b"
    using getCountryCoordinates_finite by blast
  then show ?thesis
    using focusOnCountry_Num [OF ab, of s] by auto
qed

text \<open>The request at a code of the table, and at a code outside it.\<close>

lemma focusOnCountry_US:
  "targetRotation (focusOnCountry ''us'' s)
     = \<lparr>rot_x = Num (37.0902 * pi / 180), rot_y = Num (95.7129 * pi / 180)\<rparr>"
  using lookup_US
  by (simp add: focusOnCountry_def getCountryCoordinates_def toUpperCase_examples Math_PI_def)

lemma focusOnCountry_ZZ:
  "targetRotation (focusOnCountry ''ZZ'' s) = \<lparr>rot_x = Num 0, rot_y = Num 0\<rparr>"
  using lookup_ZZ
  by (simp add: focusOnCountry_def getCountryCoordinates_def toUpperCase_examples Math_PI_def)

section \<open>The encoder on a batch whose totals are all zero\<close>

lemma aggregate_zero_record:
  "aggregateEmissionsByCountry
     [\<lparr>e_id = 1, year = 2020, emissions = Num 0, country = ''US'', emission_type = CO2,
        activity = ENERGY, created_at = ''''\<rparr>]
   = [(''US'', \<lparr>r_country = ''US'', r_totalEmissions = Num 0, r_count = 1\<rparr>)]"
  by (simp add: aggregateEmissionsByCountry_def aggregate_record_def)

text \<open>
  C1 (violated by the code). The batch aggregated from one record of 0 emissions has
  maximum 0, and the normalized value of its entry is \<open>0 / 0\<close>, which is \<open>NaN\<close>: it is
  not 0, not in [0,1], and the division did produce \<open>NaN\<close>.
\<close>

theorem normalizedEmissions_zero_batch:
  "maxEmissions (aggregateEmissionsByCountry
     [\<lparr>e_id = 1, year = 2020, emissions = Num 0, country = ''US'', emission_type = CO2,
        activity = ENERGY, created_at = ''''\<rparr>]) = Num 0 \<and>
   map (\<lambda>(k, d). normalizedEmissions (maxEmissions (aggregateEmissionsByCountry
     [\<lparr>e_id = 1, year = 2020, emissions = Num 0, country = ''US'', emission_type = CO2,
        activity = ENERGY, created_at = ''''\<rparr>])) d)
     (aggregateEmissionsByCountry
     [\<lparr>e_id = 1, year = 2020, emissions = Num 0, country = ''US'', emission_type = CO2,
        activity = ENERGY, created_at = ''''\<rparr>]) = [NaN] \<and>
   \<not> (jsle (Num 0) NaN \<and> jsle NaN (Num 1))"
  unfolding aggregate_zero_record
  by (simp add: maxEmissions_def normalizedEmissions_def jsgt_def inf_signed_def jsle_def)

text \<open>
  C4 (violated by the code). On the same batch the size of the point is \<open>NaN\<close>, which is
  not in [0.05, 0.35]; its colour is red, the colour of the highest band.
\<close>

theorem size_zero_batch:
  "transformToGlobePoints (aggregateEmissionsByCountry
     [\<lparr>e_id = 1, year = 2020, emissions = Num 0, country = ''US'', emission_type = CO2,
        activity = ENERGY, created_at = ''''\<rparr>])
     = [\<lparr>p_lat = Num 37.0902, p_lng = Num (- 95.7129), p_country = ''US'',
         p_totalEmissions = Num 0, p_size = NaN, p_color = ''#ff0000'',
         p_label = (''United States'', ''US'', Num 0, 1)\<rparr>] \<and>
   \<not> (jsle (Num 0.05) NaN \<and> jsle NaN (Num 0.35))"
  unfolding aggregate_zero_record
  using lookup_US
  by (simp add: transformToGlobePoints_def globePoint_def maxEmissions_def
      normalizedEmissions_def jsgt_def inf_signed_def jsle_def getColorForEmissions_def
      getCountryCoordinates_def toUpperCase_examples)

section \<open>The encoder on a batch with a positive maximum\<close>

text \<open>
  Where every total is a finite number that is not negative, the running maximum is the
  largest total (or 0 for the empty batch); and where it is positive, normalized values
  are in [0,1], sizes are in [0.05, 0.35], and a larger total gets a size at least as
  large. The \<open>NaN\<close> of the all-zero batch arises at a maximum of 0 only.
\<close>

lemma maxEmissions_snoc:
  "maxEmissions (cd @ [(k, d)])
     = (if jsgt (r_totalEmissions d) (maxEmissions cd) then r_totalEmissions d
        else maxEmissions cd)"
  by (simp add: maxEmissions_def)

lemma maxEmissions_bound:
  assumes "\<forall>(k, d) \<in> set cd. \<exists>t. r_totalEmissions d = Num t \<and> 0 \<le> t"
  shows "\<exists>m. maxEmissions cd = Num m \<and> 0 \<le> m \<and>
           (\<forall>(k, d) \<in> set cd. \<forall>t. r_totalEmissions d = Num t \<longrightarrow> t \<le> m)"
  using assms
proof (induction cd rule: rev_induct)
  case Nil
  show ?case by (simp add: maxEmissions_def)
next
  case (snoc kd cd)
  obtain k d where kd: "kd = (k, d)" by (cases kd)
  from snoc.prems kd obtain t where t: "r_totalEmissions d = Num t" "0 \<le> t"
    by auto
  from snoc obtain m where m: "maxEmissions cd = Num m" "0 \<le> m"
      "\<forall>(k, d) \<in> set cd. \<forall>t. r_totalEmissions d = Num t \<longrightarrow> t \<le> m"
    by auto
  show ?case
  proof (cases "m < t")
    case True
    then have "maxEmissions (cd @ [kd]) = Num t"
      using kd t m by (simp add: maxEmissions_snoc jsgt_def)
    moreover have "\<forall>(k, d) \<in> set (cd @ [kd]). \<forall>u. r_totalEmissions d = Num u \<longrightarrow> u \<le> t"
      using m(3) True kd t by fastforce
    ultimately show ?thesis using t by blast
  next
    case False
    then have "maxEmissions (cd @ [kd]) = Num m"
      using kd t m by (simp add: maxEmissions_snoc jsgt_def)
    moreover have "\<forall>(k, d) \<in> set (cd @ [kd]). \<forall>u. r_totalEmissions d = Num u \<longrightarrow> u \<le> m"
      using m(3) False kd t by fastforce
    ultimately show ?thesis using m by blast
  qed
qed

lemma encoder_positive_maximum:
  assumes "\<forall>(k, d) \<in> set cd. \<exists>t. r_totalEmissions d = Num t \<and> 0 \<le> t"
    and "maxEmissions cd = Num m" and "0 < m"
    and "(k, d) \<in> set cd" and "r_totalEmissions d = Num t"
  shows "normalizedEmissions (maxEmissions cd) d = Num (t / m)"
    and "0 \<le> t / m" and "t / m \<le> 1"
    and "p_size (globePoint (maxEmissions cd) d) = Num (0.05 + t / m * 0.3)"
    and "jsle (Num 0.05) (p_size (globePoint (maxEmissions cd) d))"
    and "jsle (p_size (globePoint (maxEmissions cd) d)) (Num 0.35)"
proof -
  from maxEmissions_bound [OF assms(1)] assms(2,4,5) have le: "t \<le> m"
    by fastforce
  from assms(1,4,5) have nonneg: "0 \<le> t"
    by fastforce
  show n: "normalizedEmissions (maxEmissions cd) d = Num (t / m)"
    using assms(2,3,5) by (simp add: normalizedEmissions_def)
  show lo: "0 \<le> t / m"
    using nonneg assms(3) by simp
  show hi: "t / m \<le> 1"
    using le assms(3) by simp
  show sz: "p_size (globePoint (maxEmissions cd) d) = Num (0.05 + t / m * 0.3)"
    using n by (simp add: globePoint_def Let_def)
  show "jsle (Num 0.05) (p_size (globePoint (maxEmissions cd) d))"
    using lo by (simp add: sz jsle_Num)
  show "jsle (p_size (globePoint (maxEmissions cd) d)) (Num 0.35)"
    using hi by (simp add: sz jsle_Num)
qed

lemma encoder_monotone:
  assumes "\<forall>(k, d) \<in> set cd. \<exists>t. r_totalEmissions d = Num t \<and> 0 \<le> t"
    and "maxEmissions cd = Num m" and "0 < m"
    and "(k1, d1) \<in> set cd" and "r_totalEmissions d1 = Num t1"
    and "(k2, d2) \<in> set cd" and "r_totalEmissions d2 = Num t2"
    and "t1 \<le> t2"
  shows "jsle (p_size (globePoint (maxEmissions cd) d1)) (p_size (globePoint (maxEmissions cd) d2))"
proof -
  have "t1 / m \<le> t2 / m"
    using assms(3,8) by (simp add: divide_right_mono)
  then show ?thesis
    using encoder_positive_maximum(4) [OF assms(1-3) assms(4,5)]
      encoder_positive_maximum(4) [OF assms(1-3) assms(6,7)]
    by (simp add: jsle_Num)
qed

section \<open>The render-loop tick\<close>

lemma animate_currentRotation:
  "isBrowser s \<Longrightarrow> currentRotation (animate s) =
     \<lparr>rot_x = jsadd (rot_x (currentRotation s))
        (jsmul (jssub (rot_x (targetRotation s)) (rot_x (currentRotation s))) (Num 0.1)),
      rot_y = jsadd (rot_y (currentRotation s))
        (jsmul (jssub (rot_y (targetRotation s)) (rot_y (currentRotation s))) (Num 0.1))\<rparr>"
  by (simp add: animate_def requestAnimationFrame_def Let_def split: option.splits)

lemma animate_targetRotation:
  "isBrowser s \<Longrightarrow> targetRotation (animate s) =
     (if isUserInteracting s then targetRotation s
      else \<lparr>rot_x = rot_x (targetRotation s),
            rot_y = jsadd (rot_y (targetRotation s)) (Num 0.001)\<rparr>)"
  by (simp add: animate_def requestAnimationFrame_def Let_def split: option.splits)

lemma animate_flags:
  "isBrowser (animate s) = isBrowser s" "isUserInteracting (animate s) = isUserInteracting s"
  by (simp_all add: animate_def requestAnimationFrame_def Let_def split: option.splits)

text \<open>
  C9. A tick of the render loop (an \<open>animate\<close> that runs, which it does on the browser
  platform only) replaces each axis of the current rotation by
  \<open>current + 0.1 * (target - current)\<close>, with the target read at the start of the tick;
  when no pointer interaction is in progress it then adds 0.001 to the target's \<open>y\<close>, and
  otherwise leaves the target as it was.
\<close>

theorem animate_damping_autorotate:
  assumes "isBrowser s"
  shows "rot_x (currentRotation (animate s)) =
           jsadd (rot_x (currentRotation s))
             (jsmul (Num 0.1) (jssub (rot_x (targetRotation s)) (rot_x (currentRotation s)))) \<and>
         rot_y (currentRotation (animate s)) =
           jsadd (rot_y (currentRotation s))
             (jsmul (Num 0.1) (jssub (rot_y (targetRotation s)) (rot_y (currentRotation s)))) \<and>
         (\<not> isUserInteracting s \<longrightarrow>
            rot_y (targetRotation (animate s)) = jsadd (rot_y (targetRotation s)) (Num 0.001) \<and>
            rot_x (targetRotation (animate s)) = rot_x (targetRotation s)) \<and>
         (isUserInteracting s \<longrightarrow> targetRotation (animate s) = targetRotation s)"
  using assms
  by (simp add: animate_currentRotation animate_targetRotation jsmul_commute [of "Num 0.1"])

theorem animate_damping_autorotate_witness:
  "isBrowser ((new_component True)\<lparr>targetRotation := \<lparr>rot_x = Num 1, rot_y = Num 2\<rparr>\<rparr>) \<and>
   \<not> isUserInteracting ((new_component True)\<lparr>targetRotation := \<lparr>rot_x = Num 1, rot_y = Num 2\<rparr>\<rparr>) \<and>
   rot_x (currentRotation (animate
     ((new_component True)\<lparr>targetRotation := \<lparr>rot_x = Num 1, rot_y = Num 2\<rparr>\<rparr>))) = Num 0.1 \<and>
   rot_y (currentRotation (animate
     ((new_component True)\<lparr>targetRotation := \<lparr>rot_x = Num 1, rot_y = Num 2\<rparr>\<rparr>))) = Num 0.2 \<and>
   rot_y (targetRotation (animate
     ((new_component True)\<lparr>targetRotation := \<lparr>rot_x = Num 1, rot_y = Num 2\<rparr>\<rparr>))) = Num 2.001 \<and>
   isUserInteracting ((new_component True)\<lparr>isUserInteracting := True\<rparr>) \<and>
   targetRotation (animate ((new_component True)\<lparr>isUserInteracting := True\<rparr>))
     = \<lparr>rot_x = Num 0, rot_y = Num 0\<rparr>"
  using animate_damping_autorotate
      [of "(new_component True)\<lparr>targetRotation := \<lparr>rot_x = Num 1, rot_y = Num 2\<rparr>\<rparr>"]
    animate_damping_autorotate [of "(new_component True)\<lparr>isUserInteracting := True\<rparr>"]
  by (simp add: new_component_def jssub_def)

text \<open>
  The easing is exponential: while the target's \<open>x\<close> stays at a finite \<open>t\<close>, the distance
  of the current \<open>x\<close> from it shrinks by the factor 0.9 with every tick.
\<close>

lemma animate_exponential_easing:
  assumes "isBrowser s" and "rot_x (targetRotation s) = Num t"
    and "rot_x (currentRotation s) = Num c"
  shows "isBrowser ((animate ^^ n) s) \<and>
         rot_x (targetRotation ((animate ^^ n) s)) = Num t \<and>
         rot_x (currentRotation ((animate ^^ n) s)) = Num (t - 0.9 ^ n * (t - c))"
proof (induction n)
  case 0
  show ?case using assms by simp
next
  case (Suc n)
  let ?s = "(animate ^^ n) s"
  from Suc have b: "isBrowser ?s" and t: "rot_x (targetRotation ?s) = Num t"
    and c: "rot_x (currentRotation ?s) = Num (t - 0.9 ^ n * (t - c))"
    by simp_all
  have arith: "(t - 0.9 ^ n * (t - c)) + (t - (t - 0.9 ^ n * (t - c))) * 0.1
      = t - 0.9 ^ Suc n * (t - c)"
  proof -
    define p where "p = (0.9::real) ^ n"
    have "(t - p * (t - c)) + (t - (t - p * (t - c))) * 0.1 = t - 0.9 * p * (t - c)"
      by (simp add: field_simps)
    then show ?thesis by (simp add: p_def)
  qed
  have "rot_x (currentRotation (animate ?s))
      = Num ((t - 0.9 ^ n * (t - c)) + (t - (t - 0.9 ^ n * (t - c))) * 0.1)"
    using b t c by (simp add: animate_currentRotation jssub_def)
  then have "rot_x (currentRotation (animate ?s)) = Num (t - 0.9 ^ Suc n * (t - c))"
    by (simp only: arith)
  moreover have "rot_x (targetRotation (animate ?s)) = Num t"
    using b t by (simp add: animate_targetRotation)
  ultimately show ?case
    using b by (simp add: animate_flags)
qed

section \<open>Pointer events\<close>

lemma detectHoveredCountry_id: "detectHoveredCountry n s = s"
  by (simp add: detectHoveredCountry_def Let_def split: option.splits)

lemma onMouseMove_fields:
  assumes "onMouseMove event rect n s = Inr s'"
  shows "hoveredCountry s' = hoveredCountry s" and "emitted s' = emitted s"
    and "clickPathCalls s' = clickPathCalls s" and "mouseDownTime s' = mouseDownTime s"
    and "isUserInteracting s' = isUserInteracting s"
  using assms
  by (auto simp: onMouseMove_def bindE_def deref_def detectHoveredCountry_id Let_def
      split: if_splits option.splits)

lemma handleCountryClick_fields:
  "hoveredCountry (handleCountryClick s) = hoveredCountry s"
  "clickPathCalls (handleCountryClick s) = clickPathCalls s + 1"
  "hoveredCountry s = None \<Longrightarrow> emitted (handleCountryClick s) = emitted s"
  by (simp_all add: handleCountryClick_def Let_def split: option.splits)

lemma dispatch_hoveredCountry: "hoveredCountry (dispatch e s) = hoveredCountry s"
proof (cases e)
  case (MouseMove event rect n)
  then show ?thesis
    by (auto simp: onMouseMove_fields split: sum.splits)
next
  case (MouseUp now)
  then show ?thesis
    by (simp add: onMouseUp_def handleCountryClick_fields Let_def)
qed (simp_all add: onMouseDown_def onTouchStart_def onTouchMove_def)

lemma dispatch_emitted:
  assumes "hoveredCountry s = None"
  shows "emitted (dispatch e s) = emitted s"
proof (cases e)
  case (MouseMove event rect n)
  then show ?thesis
    by (auto simp: onMouseMove_fields split: sum.splits)
next
  case (MouseUp now)
  then show ?thesis
    using assms by (simp add: onMouseUp_def handleCountryClick_fields Let_def)
qed (simp_all add: onMouseDown_def onTouchStart_def onTouchMove_def)

lemma run_pointer_snoc: "run_pointer (evs @ [e]) s = dispatch e (run_pointer evs s)"
  by (simp add: run_pointer_def)

lemma run_pointer_quiet:
  "hoveredCountry (run_pointer evs s) = hoveredCountry s \<and>
   (hoveredCountry s = None \<longrightarrow> emitted (run_pointer evs s) = emitted s)"
proof (induction evs rule: rev_induct)
  case Nil
  show ?case by (simp add: run_pointer_def)
next
  case (snoc e evs)
  then show ?case
    by (simp add: run_pointer_snoc dispatch_hoveredCountry dispatch_emitted)
qed

text \<open>
  C10. No handler writes the hover candidate: every pointer event leaves
  \<open>hoveredCountry\<close> as it found it. So a component whose candidate is \<open>null\<close>, as the
  new_componentor leaves it, keeps it \<open>null\<close> through every sequence of pointer events and
  gives nothing to either output: the guard of the click handler fails every time and
  no hover change is signalled.
\<close>

theorem pointer_events_emit_nothing:
  assumes "hoveredCountry s = None"
  shows "hoveredCountry (run_pointer evs s) = None \<and>
         emitted (run_pointer evs s) = emitted s \<and>
         hoveredCountry (new_component browser) = None \<and>
         emitted (run_pointer evs (new_component browser)) = []"
proof -
  have c: "hoveredCountry (new_component browser) = None" "emitted (new_component browser) = []"
    by (simp_all add: new_component_def)
  show ?thesis
    using assms c run_pointer_quiet [of evs s] run_pointer_quiet [of evs "new_component browser"]
    by simp
qed

theorem pointer_events_emit_nothing_witness:
  "hoveredCountry (initializeGlobe [] (new_component True)) = None \<and>
   emitted (run_pointer
     [MouseDown 0,
      MouseMove \<lparr>clientX = Num 110, clientY = Num 100, buttons = 1, movementX = Num 10,
                 movementY = Num 0\<rparr>
        \<lparr>rect_left = Num 0, rect_top = Num 0, rect_width = Num 800, rect_height = Num 500\<rparr> 3,
      MouseUp 50, TouchStart 1 60, TouchMove, MouseUp 100]
     (initializeGlobe [] (new_component True))) = []"
proof -
  have h: "hoveredCountry (initializeGlobe [] (new_component True)) = None"
    by (simp add: initializeGlobe_def new_component_def setupResizeObserver_def)
  have e: "emitted (initializeGlobe [] (new_component True)) = []"
    by (simp add: initializeGlobe_def new_component_def setupResizeObserver_def)
  show ?thesis
    using h e pointer_events_emit_nothing [OF h] by simp
qed

section \<open>Clicks and drags\<close>

lemma dispatch_movement:
  assumes "is_movement e"
  shows "clickPathCalls (dispatch e s) = clickPathCalls s"
    and "mouseDownTime (dispatch e s) = mouseDownTime s"
  using assms
  by (cases e; auto simp: onMouseMove_fields onTouchMove_def split: sum.splits)+

lemma run_pointer_movement:
  assumes "list_all is_movement moves"
  shows "clickPathCalls (run_pointer moves s) = clickPathCalls s \<and>
         mouseDownTime (run_pointer moves s) = mouseDownTime s"
  using assms
proof (induction moves rule: rev_induct)
  case Nil
  show ?case by (simp add: run_pointer_def)
next
  case (snoc e moves)
  then show ?case
    by (simp add: run_pointer_snoc dispatch_movement)
qed

lemma run_pointer_gesture:
  "run_pointer (MouseDown t0 # moves @ [MouseUp t1]) s
     = onMouseUp t1 (run_pointer moves (onMouseDown t0 s))"
  by (simp add: run_pointer_def)

lemma onMouseUp_clickPathCalls:
  "clickPathCalls (onMouseUp now s)
     = (if now - mouseDownTime s < 200 then clickPathCalls s + 1 else clickPathCalls s)"
  by (simp add: onMouseUp_def handleCountryClick_fields Let_def)

text \<open>
  C2 as stated fails: a pointer-down at 0 ms, a move with the button held that reports
  the movement (10, 0) and turns the target rotation, and a pointer-up at 50 ms. The
  pointer-up handler calls the click handler.
\<close>

theorem short_drag_reaches_click_path:
  "targetRotation (initializeGlobe [] (new_component True)) = \<lparr>rot_x = Num 0, rot_y = Num 0\<rparr> \<and>
   targetRotation (run_pointer
     [MouseDown 0,
      MouseMove \<lparr>clientX = Num 110, clientY = Num 100, buttons = 1, movementX = Num 10,
                 movementY = Num 0\<rparr>
        \<lparr>rect_left = Num 0, rect_top = Num 0, rect_width = Num 800, rect_height = Num 500\<rparr> 0]
     (initializeGlobe [] (new_component True))) = \<lparr>rot_x = Num 0, rot_y = Num 0.05\<rparr> \<and>
   clickPathCalls (initializeGlobe [] (new_component True)) = 0 \<and>
   clickPathCalls (run_pointer
     [MouseDown 0,
      MouseMove \<lparr>clientX = Num 110, clientY = Num 100, buttons = 1, movementX = Num 10,
                 movementY = Num 0\<rparr>
        \<lparr>rect_left = Num 0, rect_top = Num 0, rect_width = Num 800, rect_height = Num 500\<rparr> 0,
      MouseUp 50]
     (initializeGlobe [] (new_component True))) = 1"
  by (simp add: run_pointer_def initializeGlobe_def new_component_def setupResizeObserver_def
      onMouseDown_def onMouseMove_def onMouseUp_def handleCountryClick_def bindE_def deref_def
      detectHoveredCountry_id Math_max_def Math_min_def Math_PI_def jssub_def Let_def)

text \<open>
  C2 as the code has it. Between a pointer-down at \<open>t0\<close> and a pointer-up at \<open>t1\<close>, with
  any movement events in between or none, the pointer-up handler takes the click path
  exactly when \<open>t1 - t0 < 200\<close>: recorded movement plays no part, and a drag that lasts
  200 ms or longer never reaches the click path. Whichever way it goes, nothing is
  emitted while the hover candidate is \<open>null\<close>.
\<close>

theorem pointer_up_click_by_elapsed_time:
  assumes "list_all is_movement moves"
  shows "clickPathCalls (run_pointer (MouseDown t0 # moves @ [MouseUp t1]) s)
           = (if t1 - t0 < 200 then clickPathCalls s + 1 else clickPathCalls s) \<and>
         (hoveredCountry s = None \<longrightarrow>
            emitted (run_pointer (MouseDown t0 # moves @ [MouseUp t1]) s) = emitted s)"
proof -
  let ?s = "run_pointer moves (onMouseDown t0 s)"
  have "clickPathCalls ?s = clickPathCalls s" and "mouseDownTime ?s = t0"
    using run_pointer_movement [OF assms, of "onMouseDown t0 s"]
    by (simp_all add: onMouseDown_def)
  then have "clickPathCalls (onMouseUp t1 ?s)
      = (if t1 - t0 < 200 then clickPathCalls s + 1 else clickPathCalls s)"
    by (simp add: onMouseUp_clickPathCalls)
  then show ?thesis
    using run_pointer_quiet [of "MouseDown t0 # moves @ [MouseUp t1]" s]
    by (simp add: run_pointer_gesture)
qed

theorem pointer_up_click_by_elapsed_time_witness:
  "list_all is_movement
     [MouseMove \<lparr>clientX = Num 110, clientY = Num 100, buttons = 1, movementX = Num 10,
                 movementY = Num 0\<rparr>
        \<lparr>rect_left = Num 0, rect_top = Num 0, rect_width = Num 800, rect_height = Num 500\<rparr> 0] \<and>
   hoveredCountry (new_component True) = None \<and>
   clickPathCalls (run_pointer
     (MouseDown 0 #
      [MouseMove \<lparr>clientX = Num 110, clientY = Num 100, buttons = 1, movementX = Num 10,
                 movementY = Num 0\<rparr>
        \<lparr>rect_left = Num 0, rect_top = Num 0, rect_width = Num 800, rect_height = Num 500\<rparr> 0]
      @ [MouseUp 250]) (new_component True)) = 0 \<and>
   clickPathCalls (run_pointer (MouseDown 0 # [] @ [MouseUp 100]) (new_component True)) = 1 \<and>
   emitted (run_pointer
     (MouseDown 0 #
      [MouseMove \<lparr>clientX = Num 110, clientY = Num 100, buttons = 1, movementX = Num 10,
                 movementY = Num 0\<rparr>
        \<lparr>rect_left = Num 0, rect_top = Num 0, rect_width = Num 800, rect_height = Num 500\<rparr> 0]
      @ [MouseUp 250]) (new_component True)) = []"
proof -
  have m: "list_all is_movement
     [MouseMove \<lparr>clientX = Num 110, clientY = Num 100, buttons = 1, movementX = Num 10,
                 movementY = Num 0\<rparr>
        \<lparr>rect_left = Num 0, rect_top = Num 0, rect_width = Num 800, rect_height = Num 500\<rparr> 0]"
    by simp
  have n: "list_all is_movement []"
    by simp
  have c: "hoveredCountry (new_component True) = None" "emitted (new_component True) = []"
    "clickPathCalls (new_component True) = 0"
    by (simp_all add: new_component_def)
  show ?thesis
    using m c pointer_up_click_by_elapsed_time [OF m, of 0 250 "new_component True"]
      pointer_up_click_by_elapsed_time [OF n, of 0 100 "new_component True"]
    by simp
qed

section \<open>Teardown\<close>

lemma clearScene_Some:
  "scene s = Some children \<Longrightarrow> clearScene s = Inr (s\<lparr>scene := Some []\<rparr>)"
proof (induction children arbitrary: s)
  case Nil
  then have "s\<lparr>scene := Some []\<rparr> = s"
    by simp
  with Nil show ?case
    by (subst clearScene.simps) simp
next
  case (Cons c cs)
  have "clearScene s = clearScene (s\<lparr>scene := Some cs\<rparr>)"
    using Cons.prems by (subst clearScene.simps) (simp add: scene_remove_def)
  also have "\<dots> = Inr (s\<lparr>scene := Some cs\<rparr>\<lparr>scene := Some []\<rparr>)"
    by (rule Cons.IH) simp
  finally show ?case by simp
qed

lemma bindE_Inr: "bindE (Inr a) f = f a"
  by (simp add: bindE_def)

lemma cleanup_observer_stage:
  "(if resizeObserver t \<noteq> None
    then bindE (deref (resizeObserver t)) (\<lambda>observer. Inr (t\<lparr>resizeObserver := None\<rparr>))
    else Inr t) = Inr (t\<lparr>resizeObserver := None\<rparr>)"
proof (cases "resizeObserver t")
  case None
  then have "t\<lparr>resizeObserver := None\<rparr> = t" by simp
  with None show ?thesis by simp
next
  case (Some observer)
  then show ?thesis by (simp add: bindE_def deref_def)
qed

lemma cleanup_renderer_stage:
  "(if renderer t \<noteq> None
    then bindE (deref (renderer t)) (\<lambda>r1.
         bindE (deref (renderer t)) (\<lambda>r2. Inr (t\<lparr>renderer := None\<rparr>)))
    else Inr t) = Inr (t\<lparr>renderer := None\<rparr>)"
proof (cases "renderer t")
  case None
  then have "t\<lparr>renderer := None\<rparr> = t" by simp
  with None show ?thesis by simp
next
  case (Some r)
  then show ?thesis by (simp add: bindE_def deref_def)
qed

lemma cleanup_scene_stage:
  "(if scene t \<noteq> None
    then bindE (clearScene t) (\<lambda>s'. Inr (s'\<lparr>scene := None\<rparr>))
    else Inr t) = Inr (t\<lparr>scene := None\<rparr>)"
proof (cases "scene t")
  case None
  then have "t\<lparr>scene := None\<rparr> = t" by simp
  with None show ?thesis by simp
next
  case (Some children)
  then show ?thesis by (simp add: clearScene_Some [OF Some] bindE_def)
qed

lemma cleanup_frame_stage:
  "(case animationFrameId t of
      Some fid \<Rightarrow> (cancelAnimationFrame fid t)\<lparr>animationFrameId := None\<rparr>
    | None \<Rightarrow> t)
   = t\<lparr>frameQueue := (case animationFrameId t of
                         Some fid \<Rightarrow> removeAll fid (frameQueue t)
                       | None \<Rightarrow> frameQueue t),
        animationFrameId := None\<rparr>"
proof (cases "animationFrameId t")
  case None
  then have "t\<lparr>animationFrameId := None\<rparr> = t" by simp
  moreover have "t\<lparr>frameQueue := frameQueue t\<rparr> = t" by simp
  ultimately show ?thesis using None by simp
next
  case (Some fid)
  then show ?thesis by (simp add: cancelAnimationFrame_def)
qed

lemma cleanup_result:
  "cleanup s =
     Inr (s\<lparr>frameQueue := (case animationFrameId s of
                               Some fid \<Rightarrow> removeAll fid (frameQueue s)
                             | None \<Rightarrow> frameQueue s),
            animationFrameId := None, resizeObserver := None, globe := None,
            renderer := None, scene := None, camera := None, raycaster := None\<rparr>)"
proof -
  let ?s2 = "s\<lparr>frameQueue := (case animationFrameId s of
                               Some fid \<Rightarrow> removeAll fid (frameQueue s)
                             | None \<Rightarrow> frameQueue s),
            animationFrameId := None, resizeObserver := None\<rparr>"
  let ?s3 = "if globe ?s2 \<noteq> None
             then (case scene ?s2 of
                     None \<Rightarrow> ?s2
                   | Some children \<Rightarrow> ?s2\<lparr>scene := Some (scene_remove GlobeObject children)\<rparr>)
                  \<lparr>globe := None\<rparr>
             else ?s2"
  have "cleanup s = Inr (?s3\<lparr>renderer := None, scene := None, camera := None, raycaster := None\<rparr>)"
    unfolding cleanup_def Let_def cleanup_frame_stage cleanup_observer_stage bindE_Inr
      cleanup_renderer_stage cleanup_scene_stage
    by simp
  moreover have "?s3\<lparr>renderer := None, scene := None, camera := None, raycaster := None\<rparr>
      = ?s2\<lparr>globe := None, renderer := None, scene := None, camera := None, raycaster := None\<rparr>"
    by (rule component.equality) (simp_all split: option.splits)
  ultimately show ?thesis by simp
qed

lemma onMouseMove_host:
  assumes "onMouseMove event rect n s = Inr s'"
  shows "frameQueue s' = frameQueue s" and "nextFrameId s' = nextFrameId s"
    and "drawCalls s' = drawCalls s" and "animationFrameId s' = animationFrameId s"
    and "importsPending s' = importsPending s"
  using assms
  by (auto simp: onMouseMove_def bindE_def deref_def detectHoveredCountry_id Let_def
      split: if_splits option.splits)

lemma dispatch_host:
  "frameQueue (dispatch e s) = frameQueue s \<and> nextFrameId (dispatch e s) = nextFrameId s \<and>
   drawCalls (dispatch e s) = drawCalls s \<and> animationFrameId (dispatch e s) = animationFrameId s \<and>
   importsPending (dispatch e s) = importsPending s"
proof (cases e)
  case (MouseMove event rect n)
  then show ?thesis
    by (auto simp: onMouseMove_host split: sum.splits)
next
  case (MouseUp now)
  then show ?thesis
    by (simp add: onMouseUp_def handleCountryClick_def Let_def split: option.splits)
qed (simp_all add: onMouseDown_def onTouchStart_def onTouchMove_def)

lemma focusOnCountry_host:
  "frameQueue (focusOnCountry c s) = frameQueue s \<and>
   nextFrameId (focusOnCountry c s) = nextFrameId s \<and>
   drawCalls (focusOnCountry c s) = drawCalls s \<and>
   animationFrameId (focusOnCountry c s) = animationFrameId s \<and>
   importsPending (focusOnCountry c s) = importsPending s"
  by (simp add: focusOnCountry_def Let_def)

lemma removeAll_only:
  "set xs \<subseteq> {x} \<Longrightarrow> removeAll x xs = []"
  by (induction xs) auto

text \<open>
  \<open>cleanup\<close> returns normally from every state, and a second \<open>cleanup\<close> right after
  returns normally too and changes nothing. Where every resource field is still \<open>null\<close>
  it changes nothing at all. Where the only queued animation-frame callbacks are those
  of the identifier in \<open>animationFrameId\<close>, the queue is empty afterwards. It leaves the
  pending imports pending.
\<close>

lemma cleanup_returns_and_repeats:
  "\<exists>s'. cleanup s = Inr s' \<and> cleanup s' = Inr s' \<and>
     importsPending s' = importsPending s \<and>
     (animationFrameId s = None \<and> resizeObserver s = None \<and> globe s = None \<and>
      renderer s = None \<and> scene s = None \<and> camera s = None \<and> raycaster s = None
        \<longrightarrow> s' = s) \<and>
     (set (frameQueue s) \<subseteq> set_option (animationFrameId s) \<longrightarrow> frameQueue s' = [])"
proof -
  define s' where "s' = s\<lparr>frameQueue := (case animationFrameId s of
                               Some fid \<Rightarrow> removeAll fid (frameQueue s)
                             | None \<Rightarrow> frameQueue s),
            animationFrameId := None, resizeObserver := None, globe := None,
            renderer := None, scene := None, camera := None, raycaster := None\<rparr>"
  have first: "cleanup s = Inr s'"
    by (simp add: cleanup_result s'_def)
  have second: "cleanup s' = Inr s'"
  proof -
    have "cleanup s' = Inr (s'\<lparr>frameQueue := (case animationFrameId s' of
                               Some fid \<Rightarrow> removeAll fid (frameQueue s')
                             | None \<Rightarrow> frameQueue s'),
            animationFrameId := None, resizeObserver := None, globe := None,
            renderer := None, scene := None, camera := None, raycaster := None\<rparr>)"
      by (rule cleanup_result)
    moreover have "s'\<lparr>frameQueue := (case animationFrameId s' of
                               Some fid \<Rightarrow> removeAll fid (frameQueue s')
                             | None \<Rightarrow> frameQueue s'),
            animationFrameId := None, resizeObserver := None, globe := None,
            renderer := None, scene := None, camera := None, raycaster := None\<rparr> = s'"
      by (rule component.equality) (simp_all add: s'_def)
    ultimately show ?thesis by simp
  qed
  have pending: "importsPending s' = importsPending s"
    by (simp add: s'_def)
  have untouched: "s' = s"
    if "animationFrameId s = None \<and> resizeObserver s = None \<and> globe s = None \<and>
      renderer s = None \<and> scene s = None \<and> camera s = None \<and> raycaster s = None"
    using that by (intro component.equality) (simp_all add: s'_def)
  have stopped: "frameQueue s' = []"
    if "set (frameQueue s) \<subseteq> set_option (animationFrameId s)"
  proof (cases "animationFrameId s")
    case None
    with that show ?thesis by (simp add: s'_def)
  next
    case (Some fid)
    with that show ?thesis by (simp add: s'_def removeAll_only)
  qed
  show ?thesis
    using first second pending untouched stopped by blast
qed

text \<open>
  With an empty queue and no imports pending, nothing the host does short of a new
  \<open>ngAfterViewInit\<close> requests a frame or draws.
\<close>

lemma step_idle:
  assumes "frameQueue s = []" and "\<not> importsPending s" and "\<not> is_view_init a"
  shows "frameQueue (step a s) = [] \<and> \<not> importsPending (step a s) \<and>
         nextFrameId (step a s) = nextFrameId s \<and> drawCalls (step a s) = drawCalls s"
proof (cases a)
  case (ViewInit container)
  with assms show ?thesis by simp
next
  case (ImportsResolved es)
  then show ?thesis using assms by simp
next
  case (Pointer e)
  then show ?thesis using assms by (simp add: dispatch_host)
next
  case AnimationFrame
  then show ?thesis using assms by simp
next
  case (SelectCountry c)
  then show ?thesis using assms by (simp add: focusOnCountry_host)
next
  case Destroy
  then show ?thesis using assms by (simp add: cleanup_result split: option.splits)
qed

lemma run_snoc: "run (acts @ [a]) s = step a (run acts s)"
  by (simp add: run_def)

lemma run_idle:
  assumes "frameQueue s = []" and "\<not> importsPending s"
    and "list_all (\<lambda>a. \<not> is_view_init a) acts"
  shows "frameQueue (run acts s) = [] \<and> \<not> importsPending (run acts s) \<and>
         nextFrameId (run acts s) = nextFrameId s \<and> drawCalls (run acts s) = drawCalls s"
  using assms(3)
proof (induction acts rule: rev_induct)
  case Nil
  show ?case using assms(1,2) by (simp add: run_def)
next
  case (snoc a acts)
  then show ?case
    using step_idle [of "run acts s" a] by (simp add: run_snoc)
qed

text \<open>
  So a teardown that finds no imports pending (initialization has completed, or was
  never started) and only the loop's own frame queued does end the render loop.
\<close>

lemma cleanup_stops_settled_loop:
  assumes "set (frameQueue s) \<subseteq> set_option (animationFrameId s)" and "\<not> importsPending s"
    and "cleanup s = Inr s'" and "list_all (\<lambda>a. \<not> is_view_init a) acts"
  shows "frameQueue (run acts s') = [] \<and> nextFrameId (run acts s') = nextFrameId s' \<and>
         drawCalls (run acts s') = drawCalls s'"
proof -
  from cleanup_returns_and_repeats [of s] assms(1,2,3)
  have "frameQueue s' = []" and "\<not> importsPending s'"
    by auto
  then show ?thesis
    using run_idle [OF _ _ assms(4), of s'] by simp
qed

text \<open>
  C8 (violated by the code). A component on the browser platform whose view is
  finished and which is destroyed while the imports are still pending: \<open>cleanup\<close> finds
  every resource field \<open>null\<close>, returns normally and changes nothing, and no frame is
  queued. When the imports resolve, the initialization resumes all the same and calls
  \<open>animate\<close>: a frame is requested after the teardown (identifier 1), nothing cancels it,
  and three frame slots later four frames have been requested and four draw calls made.
\<close>

theorem teardown_before_imports_resolve:
  "cleanup (run [ViewInit True] (new_component True))
     = Inr (run [ViewInit True] (new_component True)) \<and>
   frameQueue (run [ViewInit True, Destroy] (new_component True)) = [] \<and>
   nextFrameId (run [ViewInit True, Destroy] (new_component True)) = 1 \<and>
   frameQueue (run [ViewInit True, Destroy, ImportsResolved []] (new_component True)) = [1] \<and>
   nextFrameId (run [ViewInit True, Destroy, ImportsResolved []] (new_component True)) = 2 \<and>
   nextFrameId (run [ViewInit True, Destroy, ImportsResolved [],
      AnimationFrame, AnimationFrame, AnimationFrame] (new_component True)) = 5 \<and>
   drawCalls (run [ViewInit True, Destroy, ImportsResolved [],
      AnimationFrame, AnimationFrame, AnimationFrame] (new_component True)) = 4"
  by (simp add: run_def ngAfterViewInit_def cleanup_result initializeGlobeAsync_def
      initializeGlobe_def setupResizeObserver_def animate_def requestAnimationFrame_def
      new_component_def Let_def)

text \<open>
  The render loop keeps \<open>loop_inv\<close>: it holds of a new component, every action of the
  host short of a second \<open>ngAfterViewInit\<close> preserves it, and it gives the condition
  under which \<open>cleanup\<close> empties the queue.
\<close>

lemma loop_inv_new: "loop_inv (step (ViewInit container) (new_component browser))"
  by (simp add: loop_inv_def ngAfterViewInit_def new_component_def)

lemma loop_inv_start: "frameQueue s = [] \<Longrightarrow> \<not> importsPending s \<Longrightarrow> loop_inv (animate s)"
  by (simp add: loop_inv_def animate_def requestAnimationFrame_def Let_def split: option.splits)

lemma initializeGlobe_host:
  "frameQueue (initializeGlobe es s) = frameQueue s \<and>
   importsPending (initializeGlobe es s) = importsPending s"
  by (simp add: initializeGlobe_def setupResizeObserver_def updateGlobeData_def Let_def
      split: option.splits)

lemma loop_inv_step:
  assumes "loop_inv s" and "\<not> is_view_init a"
  shows "loop_inv (step a s)"
proof (cases a)
  case (ViewInit container)
  with assms show ?thesis by simp
next
  case (ImportsResolved es)
  show ?thesis
  proof (cases "importsPending s")
    case True
    with assms(1) have "frameQueue s = []"
      by (auto simp: loop_inv_def split: list.splits)
    with True ImportsResolved show ?thesis
      using loop_inv_start [of "initializeGlobe es (s\<lparr>importsPending := False\<rparr>)"]
      by (simp add: initializeGlobeAsync_def initializeGlobe_host)
  next
    case False
    with ImportsResolved assms(1) show ?thesis by simp
  qed
next
  case (Pointer e)
  then show ?thesis
    using assms dispatch_host [of e s] by (auto simp: loop_inv_def split: list.splits)
next
  case AnimationFrame
  show ?thesis
  proof (cases "frameQueue s")
    case Nil
    with AnimationFrame assms show ?thesis by simp
  next
    case (Cons fid rest)
    with assms have "rest = []" and "\<not> importsPending s"
      by (cases rest; simp add: loop_inv_def)+
    with Cons AnimationFrame show ?thesis
      using loop_inv_start [of "s\<lparr>frameQueue := []\<rparr>"] by simp
  qed
next
  case (SelectCountry c)
  then show ?thesis
    using assms focusOnCountry_host [of c s] by (auto simp: loop_inv_def split: list.splits)
next
  case Destroy
  then show ?thesis
    using assms
    by (auto simp: cleanup_result loop_inv_def split: option.splits list.splits)
qed

lemma loop_inv_cancellable:
  "loop_inv s \<Longrightarrow> set (frameQueue s) \<subseteq> set_option (animationFrameId s)"
  by (auto simp: loop_inv_def split: list.splits)


end
